theory Spec2Isabelle
  imports Main "HOL-Library.Word"
begin

section \<open>Go values\<close>

text \<open>
  Go's \<open>int64\<close> is a 64-bit word read as two's complement (\<open>sint\<close>); a Go \<open>error\<close> is
  its message text, and \<open>fmt.Errorf("...: %w", err)\<close> puts a prefix before the message of
  the wrapped error. A function returning \<open>error\<close> alone returns \<open>None\<close> for \<open>nil\<close>; one
  returning a value and an error returns \<open>Inl\<close> of the error or \<open>Inr\<close> of the value.
  \<open>log.Printf\<close> has no effect on any result and is left out.
\<close>

type_synonym int64 = "64 word"
type_synonym error = string

fun decimal :: "nat \<Rightarrow> string" where
  "decimal n =
     (if n < 10 then [''0123456789'' ! n]
      else decimal (n div 10) @ [''0123456789'' ! (n mod 10)])"

declare decimal.simps [simp del]

text \<open>\<open>fmt.Sprintf("%d", i)\<close>.\<close>

definition Sprintf_d :: "int \<Rightarrow> string" where
  "Sprintf_d i = (if i < 0 then CHR ''-'' # decimal (nat (- i)) else decimal (nat i))"

text \<open>\<open>strings.TrimPrefix\<close>.\<close>

definition TrimPrefix :: "string \<Rightarrow> string \<Rightarrow> string" where
  "TrimPrefix s p = (if take (length p) s = p then drop (length p) s else s)"

section \<open>Data model\<close>

record ShareParams =
  Expires :: int64
  Password :: string
  Unit :: string

record ActionParams =
  ShareParams :: ShareParams
  FileSize :: int64
  Force :: bool

record ShareResult =
  ViewUrl :: string
  DownloadUrl :: string

record FilebrowserAuth =
  URL :: string
  Username :: string
  Password :: string

record ReqLogin =
  Username :: string
  Password :: string

text \<open>The client; the embedded \<open>ReqLogin\<close> gives it the fields \<open>Username\<close> and \<open>Password\<close>.\<close>

record Client =
  URL :: string
  Username :: string
  Password :: string
  Token :: string

record ReqShare =
  Expires :: string
  Password :: string
  Unit :: string

record RespResource =
  NotExist :: bool
  Path :: string
  Name :: string
  Size :: int64
  Extension :: string
  Modified :: string
  Mode :: int64
  IsDir :: string
  IsSymlink :: string
  Type :: string

record RespShare =
  Hash :: string
  Path :: string

text \<open>The zero values \<open>ReqShare{}\<close> and \<open>RespResource{}\<close>.\<close>

definition ReqShare_zero :: ReqShare where
  "ReqShare_zero = \<lparr>ReqShare.Expires = '''', ReqShare.Password = '''', ReqShare.Unit = ''''\<rparr>"

definition RespResource_zero :: RespResource where
  "RespResource_zero =
     \<lparr>NotExist = False, RespResource.Path = '''', Name = '''', Size = 0, Extension = '''',
      Modified = '''', Mode = 0, IsDir = '''', IsSymlink = '''', Type = ''''\<rparr>"

section \<open>The outside world\<close>

text \<open>
  The remote service, the local file system and the libraries the code calls (req, go-tus,
  lancet, net/url, path/filepath, os) are not part of the repository. They are parameters:
  a record of functions over a world state \<open>'w\<close> that the calls read and change. Every
  network exchange is appended to a trace, so that what was sent, and how often, can be
  stated.
\<close>

datatype http_method = GET | POST | DELETE

datatype body = NoBody | LoginBody ReqLogin | ShareBody ReqShare

record request =
  Method :: http_method
  Url :: string
  XAuth :: "string option"
  Body :: body

record response =
  StatusCode :: int
  String :: string

datatype event =
    Http request "error + response"
  | Download string string
  | TusCreate string string string
  | TusTransfer string string string

record 'w state =
  world :: 'w
  trace :: "event list"

record 'w env =
  req_Do :: "'w \<Rightarrow> request \<Rightarrow> (error + response) \<times> 'w"
  unmarshalResource :: "string \<Rightarrow> RespResource"
  unmarshalShare :: "string \<Rightarrow> RespShare"
  tus_NewClient :: "string \<Rightarrow> error option"
  tus_NewUploadFromFile :: "'w \<Rightarrow> string \<Rightarrow> error option"
  tus_CreateUpload :: "'w \<Rightarrow> string \<Rightarrow> string \<Rightarrow> string \<Rightarrow> error option \<times> 'w"
  tus_Upload :: "'w \<Rightarrow> string \<Rightarrow> string \<Rightarrow> string \<Rightarrow> error option \<times> 'w"
  os_Stat_IsNotExist :: "'w \<Rightarrow> string \<Rightarrow> bool"
  os_Open :: "'w \<Rightarrow> string \<Rightarrow> error option"
  os_TempDir :: string
  fileutil_IsExist :: "'w \<Rightarrow> string \<Rightarrow> bool"
  fileutil_FileSize :: "'w \<Rightarrow> string \<Rightarrow> error + int64"
  fileutil_CreateDir :: "'w \<Rightarrow> string \<Rightarrow> error option \<times> 'w"
  convertor_ToInt :: "int64 \<Rightarrow> error + int64"
  netutil_DownloadFile :: "'w \<Rightarrow> string \<Rightarrow> string \<Rightarrow> error option \<times> 'w"
  url_Parse_Path :: "string \<Rightarrow> error + string"
  filepath_Join :: "string list \<Rightarrow> string"
  filepath_Base :: "string \<Rightarrow> string"
  filepath_Dir :: "string \<Rightarrow> string"

text \<open>
  \<open>req_Do\<close> sends one request with the req library and gives its error or its response;
  \<open>unmarshalResource\<close> and \<open>unmarshalShare\<close> are what \<open>SetSuccessResult\<close> stores in the
  result variable from the body of a success response. \<open>url_Parse_Path\<close> is the \<open>Path\<close>
  field of \<open>url.Parse\<close>'s result; \<open>os_Stat_IsNotExist\<close> is \<open>os.IsNotExist\<close> of the error of
  \<open>os.Stat\<close>. The three go-tus calls take the endpoint, the \<open>X-Auth\<close> token and the local
  path.
\<close>

definition send :: "'w env \<Rightarrow> 'w state \<Rightarrow> request \<Rightarrow> (error + response) \<times> 'w state" where
  "send env s rq =
     (case req_Do env (world s) rq of
        (r, w) \<Rightarrow> (r, s\<lparr>world := w, trace := trace s @ [Http rq r]\<rparr>))"

definition StatusOK :: int where "StatusOK = 200"
definition StatusNotFound :: int where "StatusNotFound = 404"

section \<open>util.go: credentials\<close>

definition Validate :: "FilebrowserAuth \<Rightarrow> error option" where
  "Validate auth =
     (if FilebrowserAuth.URL auth = '''' then Some ''URL cannot be empty''
      else if FilebrowserAuth.Username auth = '''' then Some ''username cannot be empty''
      else if FilebrowserAuth.Password auth = '''' then Some ''password cannot be empty''
      else None)"

section \<open>The remote client\<close>

definition Client_Validate :: "Client \<Rightarrow> error option" where
  "Client_Validate c =
     (if Client.URL c = '''' then Some ''URL cannot be empty''
      else if Client.Username c = '''' then Some ''username cannot be empty''
      else if Client.Password c = '''' then Some ''password cannot be empty''
      else None)"

definition login_request :: "Client \<Rightarrow> request" where
  "login_request c =
     \<lparr>Method = POST, Url = Client.URL c @ ''/api/login'', XAuth = None,
      Body = LoginBody \<lparr>ReqLogin.Username = Client.Username c,
                        ReqLogin.Password = Client.Password c\<rparr>\<rparr>"

definition Login :: "'w env \<Rightarrow> Client \<Rightarrow> 'w state \<Rightarrow> error option \<times> Client \<times> 'w state" where
  "Login env c s =
     (case Client_Validate c of
        Some err \<Rightarrow> (Some (''invalid client configuration: '' @ err), c, s)
      | None \<Rightarrow>
          (case send env s (login_request c) of
             (Inl err, s') \<Rightarrow> (Some (''login request failed: '' @ err), c, s')
           | (Inr resp, s') \<Rightarrow>
               if StatusCode resp \<noteq> StatusOK
               then (Some (''login failed with status code: '' @ Sprintf_d (StatusCode resp)), c, s')
               else
                 (let c' = c\<lparr>Token := String resp\<rparr>
                  in if Token c' = '''' then (Some ''received empty token from server'', c', s')
                     else (None, c', s'))))"

definition ensureAuthenticated ::
  "'w env \<Rightarrow> Client \<Rightarrow> 'w state \<Rightarrow> error option \<times> Client \<times> 'w state" where
  "ensureAuthenticated env c s = (if Token c = '''' then Login env c s else (None, c, s))"

text \<open>
  \<open>Upload\<close>: the two path checks, \<open>os.Stat\<close>, the guard, then the go-tus calls in the
  source's order (\<open>NewClient\<close>, \<open>os.Open\<close>, \<open>NewUploadFromFile\<close>, \<open>CreateUpload\<close>,
  \<open>Upload\<close>); the last two talk to the server.
\<close>

definition Upload ::
  "'w env \<Rightarrow> Client \<Rightarrow> 'w state \<Rightarrow> string \<Rightarrow> string \<Rightarrow> error option \<times> Client \<times> 'w state" where
  "Upload env c s localPath remotePath =
     (if localPath = '''' then (Some ''local path cannot be empty'', c, s)
      else if remotePath = '''' then (Some ''remote path cannot be empty'', c, s)
      else if os_Stat_IsNotExist env (world s) localPath
      then (Some (''local file does not exist: '' @ localPath), c, s)
      else
        (case ensureAuthenticated env c s of
           (Some err, c1, s1) \<Rightarrow> (Some (''authentication failed: '' @ err), c1, s1)
         | (None, c1, s1) \<Rightarrow>
             (let endpoint = Client.URL c1 @ ''/api/tus/'' @ remotePath
              in case tus_NewClient env endpoint of
                   Some err \<Rightarrow> (Some (''failed to create TUS client: '' @ err), c1, s1)
                 | None \<Rightarrow>
                     (case os_Open env (world s1) localPath of
                        Some err \<Rightarrow> (Some (''failed to open local file: '' @ err), c1, s1)
                      | None \<Rightarrow>
                          (case tus_NewUploadFromFile env (world s1) localPath of
                             Some err \<Rightarrow>
                               (Some (''failed to create upload from file: '' @ err), c1, s1)
                           | None \<Rightarrow>
                               (case tus_CreateUpload env (world s1) endpoint (Token c1) localPath of
                                  (r2, w2) \<Rightarrow>
                                    (let s2 = s1\<lparr>world := w2,
                                           trace := trace s1 @ [TusCreate endpoint (Token c1) localPath]\<rparr>
                                     in case r2 of
                                          Some err \<Rightarrow> (Some (''failed to create upload: '' @ err), c1, s2)
                                        | None \<Rightarrow>
                                            (case tus_Upload env (world s2) endpoint (Token c1) localPath of
                                               (r3, w3) \<Rightarrow>
                                                 (let s3 = s2\<lparr>world := w3,
                                                        trace := trace s2 @
                                                          [TusTransfer endpoint (Token c1) localPath]\<rparr>
                                                  in case r3 of
                                                       Some err \<Rightarrow> (Some (''upload failed: '' @ err), c1, s3)
                                                     | None \<Rightarrow> (None, c1, s3))))))))))"

definition Share ::
  "'w env \<Rightarrow> Client \<Rightarrow> 'w state \<Rightarrow> string \<Rightarrow> int64 \<Rightarrow> string \<Rightarrow> string
     \<Rightarrow> (error + string) \<times> Client \<times> 'w state" where
  "Share env c s remotePath expires password unit =
     (if remotePath = '''' then (Inl ''remote path cannot be empty'', c, s)
      else
        (case ensureAuthenticated env c s of
           (Some err, c1, s1) \<Rightarrow> (Inl (''authentication failed: '' @ err), c1, s1)
         | (None, c1, s1) \<Rightarrow>
             (let body =
                (if 0 < sint expires
                 then \<lparr>ReqShare.Expires = Sprintf_d (sint expires),
                       ReqShare.Password = password, ReqShare.Unit = unit\<rparr>
                 else ReqShare_zero)
              in case send env s1
                       \<lparr>Method = POST, Url = Client.URL c1 @ ''/api/share/'' @ remotePath,
                        XAuth = Some (Token c1), Body = ShareBody body\<rparr> of
                   (Inl err, s2) \<Rightarrow> (Inl (''share request failed: '' @ err), c1, s2)
                 | (Inr resp, s2) \<Rightarrow>
                     if StatusCode resp \<noteq> StatusOK
                     then (Inl (''share request failed with status code: ''
                                 @ Sprintf_d (StatusCode resp)), c1, s2)
                     else if Hash (unmarshalShare env (String resp)) = ''''
                     then (Inl ''received empty hash from server'', c1, s2)
                     else (Inr (Hash (unmarshalShare env (String resp))), c1, s2))))"

definition GetResource ::
  "'w env \<Rightarrow> Client \<Rightarrow> 'w state \<Rightarrow> string \<Rightarrow> (error + RespResource) \<times> Client \<times> 'w state" where
  "GetResource env c s remotePath =
     (if remotePath = '''' then (Inl ''remote path cannot be empty'', c, s)
      else
        (case ensureAuthenticated env c s of
           (Some err, c1, s1) \<Rightarrow> (Inl (''authentication failed: '' @ err), c1, s1)
         | (None, c1, s1) \<Rightarrow>
             (case send env s1
                     \<lparr>Method = GET, Url = Client.URL c1 @ ''/api/resources/'' @ remotePath,
                      XAuth = Some (Token c1), Body = NoBody\<rparr> of
                (Inl err, s2) \<Rightarrow> (Inl (''resource request failed: '' @ err), c1, s2)
              | (Inr resp, s2) \<Rightarrow>
                  if StatusCode resp = StatusNotFound
                  then (Inr (RespResource_zero\<lparr>NotExist := True\<rparr>), c1, s2)
                  else if StatusCode resp \<noteq> StatusOK
                  then (Inl (''resource request failed with status code: ''
                              @ Sprintf_d (StatusCode resp)), c1, s2)
                  else (Inr (unmarshalResource env (String resp)), c1, s2))))"

definition DeleteResource ::
  "'w env \<Rightarrow> Client \<Rightarrow> 'w state \<Rightarrow> string \<Rightarrow> error option \<times> Client \<times> 'w state" where
  "DeleteResource env c s remotePath =
     (if remotePath = '''' then (Some ''remote path cannot be empty'', c, s)
      else
        (case ensureAuthenticated env c s of
           (Some err, c1, s1) \<Rightarrow> (Some (''authentication failed: '' @ err), c1, s1)
         | (None, c1, s1) \<Rightarrow>
             (case send env s1
                     \<lparr>Method = DELETE, Url = Client.URL c1 @ ''/api/resources/'' @ remotePath,
                      XAuth = Some (Token c1), Body = NoBody\<rparr> of
                (Inl err, s2) \<Rightarrow> (Some (''delete request failed: '' @ err), c1, s2)
              | (Inr resp, s2) \<Rightarrow>
                  if StatusCode resp \<noteq> StatusOK \<and> StatusCode resp \<noteq> StatusNotFound
                  then (Some (''delete request failed with status code: ''
                               @ Sprintf_d (StatusCode resp)), c1, s2)
                  else (None, c1, s2))))"

section \<open>The downloader\<close>

definition fileExistsWithSameSize :: "'w env \<Rightarrow> 'w \<Rightarrow> string \<Rightarrow> int64 \<Rightarrow> bool" where
  "fileExistsWithSameSize env w localPath expectedSize =
     (if \<not> fileutil_IsExist env w localPath then False
      else
        (case fileutil_FileSize env w localPath of
           Inl err \<Rightarrow> False
         | Inr localSize \<Rightarrow>
             (case convertor_ToInt env expectedSize of
                Inl err \<Rightarrow> False
              | Inr expectedSizeInt \<Rightarrow> localSize = expectedSizeInt)))"

definition LocalPathForDownload :: "'w env \<Rightarrow> string \<Rightarrow> string" where
  "LocalPathForDownload env fileURL =
     (case url_Parse_Path env fileURL of
        Inl err \<Rightarrow> filepath_Join env [os_TempDir env, filepath_Base env fileURL]
      | Inr parsedPath \<Rightarrow>
          (let path = TrimPrefix parsedPath ''/'';
               path = (if path = '''' then ''downloaded_file'' else path)
           in filepath_Join env [os_TempDir env, path]))"

definition EnsureFolderForFile :: "'w env \<Rightarrow> 'w state \<Rightarrow> string \<Rightarrow> error option \<times> 'w state" where
  "EnsureFolderForFile env s localPath =
     (if localPath = '''' then (Some ''local path cannot be empty'', s)
      else
        (let dir = filepath_Dir env localPath
         in case fileutil_CreateDir env (world s) dir of
              (Some err, w) \<Rightarrow>
                (Some (''failed to create directory '' @ dir @ '': '' @ err), s\<lparr>world := w\<rparr>)
            | (None, w) \<Rightarrow> (None, s\<lparr>world := w\<rparr>)))"

definition DownloadToLocal ::
  "'w env \<Rightarrow> 'w state \<Rightarrow> string \<Rightarrow> int64 \<Rightarrow> (error + string) \<times> 'w state" where
  "DownloadToLocal env s fileURL fileSize =
     (if fileURL = '''' then (Inl ''file URL cannot be empty'', s)
      else
        (let localPath = LocalPathForDownload env fileURL
         in case EnsureFolderForFile env s localPath of
              (Some err, s1) \<Rightarrow> (Inl (''failed to create directory for file: '' @ err), s1)
            | (None, s1) \<Rightarrow>
                if 0 < sint fileSize \<and> fileExistsWithSameSize env (world s1) localPath fileSize
                then (Inr localPath, s1)
                else
                  (case netutil_DownloadFile env (world s1) localPath fileURL of
                     (r, w) \<Rightarrow>
                       (let s2 = s1\<lparr>world := w, trace := trace s1 @ [Download localPath fileURL]\<rparr>
                        in case r of
                             Some err \<Rightarrow>
                               (Inl (''failed to download file from '' @ fileURL @ '': '' @ err), s2)
                           | None \<Rightarrow> (Inr localPath, s2)))))"

section \<open>util.go: the orchestrator\<close>

text \<open>
  Lines 94 to 120 of \<open>SaveAndShare\<close>: the decision on the fetched metadata and the upload
  that follows it, with the flag \<open>shouldUpload\<close> as the source has it. A failed delete
  returns at once.
\<close>

definition SaveAndShare_sync ::
  "'w env \<Rightarrow> Client \<Rightarrow> 'w state \<Rightarrow> string \<Rightarrow> string \<Rightarrow> RespResource \<Rightarrow> ActionParams
     \<Rightarrow> error option \<times> Client \<times> 'w state" where
  "SaveAndShare_sync env c s localPath remotePath resourceRet actionParams =
     (case
        (if \<not> NotExist resourceRet then
           (if Force actionParams then
              (case DeleteResource env c s remotePath of
                 (Some err, c1, s1) \<Rightarrow>
                   (Some (''failed to delete existing resource: '' @ err), True, c1, s1)
               | (None, c1, s1) \<Rightarrow> (None, True, c1, s1))
            else if 0 < sint (FileSize actionParams)
                    \<and> Size resourceRet \<noteq> FileSize actionParams then
              (case DeleteResource env c s remotePath of
                 (Some err, c1, s1) \<Rightarrow>
                   (Some (''failed to delete mismatched resource: '' @ err), True, c1, s1)
               | (None, c1, s1) \<Rightarrow> (None, True, c1, s1))
            else (None, False, c, s))
         else (None, True, c, s)) of
        (Some err, shouldUpload, c1, s1) \<Rightarrow> (Some err, c1, s1)
      | (None, shouldUpload, c1, s1) \<Rightarrow>
          if shouldUpload then
            (case Upload env c1 s1 localPath remotePath of
               (Some err, c2, s2) \<Rightarrow> (Some (''failed to upload file: '' @ err), c2, s2)
             | (None, c2, s2) \<Rightarrow> (None, c2, s2))
          else (None, c1, s1))"

text \<open>
  \<open>SaveAndShare\<close>. The naming function may be \<open>nil\<close>, hence the \<open>option\<close>. The client is
  local to the call, so the result carries the world and the trace only.
\<close>

definition SaveAndShare ::
  "'w env \<Rightarrow> 'w state \<Rightarrow> FilebrowserAuth \<Rightarrow> string \<Rightarrow> (string \<Rightarrow> string) option \<Rightarrow> ActionParams
     \<Rightarrow> (error + ShareResult) \<times> 'w state" where
  "SaveAndShare env s auth externalURL remotePathFn actionParams =
     (case Validate auth of
        Some err \<Rightarrow> (Inl (''invalid authentication: '' @ err), s)
      | None \<Rightarrow>
          if externalURL = '''' then (Inl ''external URL cannot be empty'', s)
          else
            (case remotePathFn of
               None \<Rightarrow> (Inl ''remote path function cannot be nil'', s)
             | Some f \<Rightarrow>
                 (case DownloadToLocal env s externalURL (FileSize actionParams) of
                    (Inl err, s1) \<Rightarrow> (Inl (''failed to download file: '' @ err), s1)
                  | (Inr localPath, s1) \<Rightarrow>
                      (let name = filepath_Base env localPath;
                           remotePath = f name
                       in if remotePath = '''' then (Inl ''remote path cannot be empty'', s1)
                          else
                            (let client =
                               \<lparr>Client.URL = FilebrowserAuth.URL auth,
                                Client.Username = FilebrowserAuth.Username auth,
                                Client.Password = FilebrowserAuth.Password auth,
                                Token = ''''\<rparr>
                             in case GetResource env client s1 remotePath of
                                  (Inl err, c2, s2) \<Rightarrow>
                                    (Inl (''failed to get resource info: '' @ err), s2)
                                | (Inr resourceRet, c2, s2) \<Rightarrow>
                                    (case SaveAndShare_sync env c2 s2 localPath remotePath
                                            resourceRet actionParams of
                                       (Some err, c3, s3) \<Rightarrow> (Inl err, s3)
                                     | (None, c3, s3) \<Rightarrow>
                                         (case Share env c3 s3 remotePath
                                                 (ShareParams.Expires (ShareParams actionParams))
                                                 (ShareParams.Password (ShareParams actionParams))
                                                 (ShareParams.Unit (ShareParams actionParams)) of
                                            (Inl err, c4, s4) \<Rightarrow>
                                              (Inl (''failed to create share: '' @ err), s4)
                                          | (Inr hash, c4, s4) \<Rightarrow>
                                              (Inr \<lparr>ViewUrl = Client.URL c4 @ ''/share/'' @ hash,
                                                    DownloadUrl =
                                                      Client.URL c4 @ ''/api/public/dl/'' @ hash\<rparr>,
                                               s4))))))))"

section \<open>Vocabulary of the properties\<close>

text \<open>
  The three actions of the synchronization policy, and what carrying one out means in
  terms of the client's operations: nothing; an upload; a delete followed, when it
  succeeds, by an upload. \<open>label\<close> is the prefix put before a delete error.
\<close>

datatype action = Skip | DeleteThenUpload | UploadOnly

definition upload_stage ::
  "'w env \<Rightarrow> Client \<Rightarrow> 'w state \<Rightarrow> string \<Rightarrow> string \<Rightarrow> error option \<times> Client \<times> 'w state" where
  "upload_stage env c s localPath remotePath =
     (case Upload env c s localPath remotePath of
        (Some err, c2, s2) \<Rightarrow> (Some (''failed to upload file: '' @ err), c2, s2)
      | (None, c2, s2) \<Rightarrow> (None, c2, s2))"

fun perform ::
  "'w env \<Rightarrow> Client \<Rightarrow> 'w state \<Rightarrow> string \<Rightarrow> string \<Rightarrow> string \<Rightarrow> action
     \<Rightarrow> error option \<times> Client \<times> 'w state" where
  "perform env c s localPath remotePath label Skip = (None, c, s)"
| "perform env c s localPath remotePath label UploadOnly =
     upload_stage env c s localPath remotePath"
| "perform env c s localPath remotePath label DeleteThenUpload =
     (case DeleteResource env c s remotePath of
        (Some err, c1, s1) \<Rightarrow> (Some (label @ err), c1, s1)
      | (None, c1, s1) \<Rightarrow> upload_stage env c1 s1 localPath remotePath)"

text \<open>
  The lifetime of a client: any sequence of calls of its four authenticated operations,
  each on the client and the world the previous one left. \<open>Login\<close> itself is not among
  them: calling it is the caller's explicit re-authentication.
\<close>

datatype call =
    CallUpload string string
  | CallShare string int64 string string
  | CallGetResource string
  | CallDeleteResource string

fun exec :: "'w env \<Rightarrow> Client \<times> 'w state \<Rightarrow> call \<Rightarrow> Client \<times> 'w state" where
  "exec env (c, s) (CallUpload localPath remotePath) = snd (Upload env c s localPath remotePath)"
| "exec env (c, s) (CallShare remotePath expires password unit) =
     snd (Share env c s remotePath expires password unit)"
| "exec env (c, s) (CallGetResource remotePath) = snd (GetResource env c s remotePath)"
| "exec env (c, s) (CallDeleteResource remotePath) = snd (DeleteResource env c s remotePath)"

definition run :: "'w env \<Rightarrow> Client \<times> 'w state \<Rightarrow> call list \<Rightarrow> Client \<times> 'w state" where
  "run env cs calls = foldl (exec env) cs calls"

text \<open>
  A login exchange in the trace is a request carrying a \<open>ReqLogin\<close> body (only \<open>Login\<close>
  sends one); it succeeded when the answer has status 200 and a non-empty token.
\<close>

fun is_login :: "event \<Rightarrow> bool" where
  "is_login (Http rq r) =
     (case Body rq of LoginBody l \<Rightarrow> True | ShareBody b \<Rightarrow> False | NoBody \<Rightarrow> False)"
| "is_login (Download p u) = False"
| "is_login (TusCreate u t p) = False"
| "is_login (TusTransfer u t p) = False"

fun login_succeeded :: "event \<Rightarrow> bool" where
  "login_succeeded (Http rq (Inr resp)) =
     (is_login (Http rq (Inr resp)) \<and> StatusCode resp = StatusOK \<and> String resp \<noteq> '''')"
| "login_succeeded (Http rq (Inl err)) = False"
| "login_succeeded (Download p u) = False"
| "login_succeeded (TusCreate u t p) = False"
| "login_succeeded (TusTransfer u t p) = False"

text \<open>
  The members of the JSON object that \<open>SetBody\<close> writes for a body, in the order of the
  fields. \<open>ReqLogin\<close> and \<open>ReqShare\<close> are structs of string fields without json tags:
  \<open>encoding/json\<close> writes every such field under its own name, and leaves none out, as
  no field has \<open>omitempty\<close>. \<open>sent_members\<close> are those of the request of an event.
\<close>

fun json_members :: "body \<Rightarrow> (string \<times> string) list" where
  "json_members NoBody = []"
| "json_members (LoginBody l) =
     [(''Username'', ReqLogin.Username l), (''Password'', ReqLogin.Password l)]"
| "json_members (ShareBody b) =
     [(''Expires'', ReqShare.Expires b), (''Password'', ReqShare.Password b),
      (''Unit'', ReqShare.Unit b)]"

fun sent_members :: "event \<Rightarrow> (string \<times> string) list" where
  "sent_members (Http rq r) = json_members (Body rq)"
| "sent_members (Download p u) = []"
| "sent_members (TusCreate u t p) = []"
| "sent_members (TusTransfer u t p) = []"

section \<open>A simulated environment\<close>

text \<open>
  A small concrete world on which the definitions can be run. The local file system is
  a list of paths with their sizes; the server is a function from requests to answers; a
  URL is split after its scheme and host; paths are joined with a slash. The two JSON
  bodies are decoded as \<open>encoding/json\<close> decodes them into \<open>RespResource\<close>, whose fields
  carry the tags \<open>not_exist\<close> and \<open>size\<close>; the body of a share answer is read as the hash.
\<close>

type_synonym files = "(string \<times> int64) list"

definition sim_url_path :: "string \<Rightarrow> error + string" where
  "sim_url_path u =
     Inr (dropWhile (\<lambda>ch. ch \<noteq> CHR ''/'') (drop 3 (dropWhile (\<lambda>ch. ch \<noteq> CHR '':'') u)))"

fun sim_join :: "string list \<Rightarrow> string" where
  "sim_join [] = ''''"
| "sim_join [p] = p"
| "sim_join (p # ps) = p @ ''/'' @ sim_join ps"

definition sim_base :: "string \<Rightarrow> string" where
  "sim_base p = rev (takeWhile (\<lambda>ch. ch \<noteq> CHR ''/'') (rev p))"

definition sim_dir :: "string \<Rightarrow> string" where
  "sim_dir p = rev (drop 1 (dropWhile (\<lambda>ch. ch \<noteq> CHR ''/'') (rev p)))"

definition not_exist_body :: string where
  \<open>not_exist_body = ''{"not_exist":true}''\<close>

definition size12_body :: string where
  \<open>size12_body = ''{"size":12}''\<close>

definition sim_unmarshalResource :: "string \<Rightarrow> RespResource" where
  "sim_unmarshalResource b =
     (if b = not_exist_body then RespResource_zero\<lparr>NotExist := True\<rparr>
      else if b = size12_body then RespResource_zero\<lparr>Size := 12\<rparr>
      else RespResource_zero)"

definition sim_env :: "(request \<Rightarrow> error + response) \<Rightarrow> files env" where
  "sim_env server =
     \<lparr>req_Do = (\<lambda>w rq. (server rq, w)),
      unmarshalResource = sim_unmarshalResource,
      unmarshalShare = (\<lambda>b. \<lparr>Hash = b, RespShare.Path = ''''\<rparr>),
      tus_NewClient = (\<lambda>u. None),
      tus_NewUploadFromFile = (\<lambda>w p. None),
      tus_CreateUpload = (\<lambda>w u t p. (None, w)),
      tus_Upload = (\<lambda>w u t p. (None, w)),
      os_Stat_IsNotExist = (\<lambda>w p. map_of w p = None),
      os_Open = (\<lambda>w p. None),
      os_TempDir = ''/tmp'',
      fileutil_IsExist = (\<lambda>w p. map_of w p \<noteq> None),
      fileutil_FileSize =
        (\<lambda>w p. case map_of w p of None \<Rightarrow> Inl ''no such file'' | Some n \<Rightarrow> Inr n),
      fileutil_CreateDir = (\<lambda>w d. (None, w)),
      convertor_ToInt = Inr,
      netutil_DownloadFile = (\<lambda>w p u. (None, (p, 12) # w)),
      url_Parse_Path = sim_url_path,
      filepath_Join = sim_join,
      filepath_Base = sim_base,
      filepath_Dir = sim_dir\<rparr>"

definition StatusResp :: "int \<Rightarrow> string \<Rightarrow> response" where
  "StatusResp code text = \<lparr>StatusCode = code, String = text\<rparr>"

text \<open>
  A server that answers a login with \<open>loginResp\<close>, a metadata query with \<open>getResp\<close>, a
  delete with 200 and a share request with 200 and the hash \<open>h4sh\<close>.
\<close>

definition sim_server :: "response \<Rightarrow> response \<Rightarrow> request \<Rightarrow> error + response" where
  "sim_server loginResp getResp rq =
     (case Body rq of
        LoginBody l \<Rightarrow> Inr loginResp
      | ShareBody b \<Rightarrow> Inr \<lparr>StatusCode = 200, String = ''h4sh''\<rparr>
      | NoBody \<Rightarrow> if Method rq = GET then Inr getResp else Inr \<lparr>StatusCode = 200, String = ''''\<rparr>)"

definition sim_ok :: "files env" where
  "sim_ok = sim_env (sim_server (StatusResp 200 ''tok'') (StatusResp 404 ''''))"

definition c0 :: Client where
  "c0 = \<lparr>Client.URL = ''http://fb'', Client.Username = ''u'', Client.Password = ''p'',
         Token = ''''\<rparr>"

definition c_tok :: Client where
  "c_tok = \<lparr>Client.URL = ''http://fb'', Client.Username = ''u'', Client.Password = ''p'',
            Token = ''tok''\<rparr>"

definition s0 :: "files state" where
  "s0 = \<lparr>world = [], trace = []\<rparr>"

definition s_file :: "files state" where
  "s_file = \<lparr>world = [(''/tmp/a.pdf'', 12)], trace = []\<rparr>"

definition res_size :: "int64 \<Rightarrow> RespResource" where
  "res_size n = RespResource_zero\<lparr>Size := n\<rparr>"

definition params :: "int64 \<Rightarrow> bool \<Rightarrow> ActionParams" where
  "params n force =
     \<lparr>ShareParams = \<lparr>ShareParams.Expires = 24, ShareParams.Password = '''',
                      ShareParams.Unit = ''hours''\<rparr>,
      FileSize = n, Force = force\<rparr>"

definition auth0 :: FilebrowserAuth where
  "auth0 = \<lparr>FilebrowserAuth.URL = ''http://fb'', FilebrowserAuth.Username = ''u'',
            FilebrowserAuth.Password = ''p''\<rparr>"

lemmas sim_defs = sim_ok_def sim_env_def sim_server_def StatusResp_def c_tok_def c0_def s0_def
  s_file_def res_size_def params_def auth0_def RespResource_zero_def

lemmas op_defs = Upload_def DeleteResource_def GetResource_def Share_def ensureAuthenticated_def
  Login_def Client_Validate_def login_request_def send_def StatusOK_def StatusNotFound_def
  ReqShare_zero_def

section \<open>Auxiliary facts\<close>

lemma decimal_not_empty: "decimal n \<noteq> ''''"
  by (subst decimal.simps) simp

lemma Sprintf_d_not_empty: "Sprintf_d i \<noteq> ''''"
  by (simp add: Sprintf_d_def decimal_not_empty)

lemma Sprintf_d_24: "Sprintf_d 24 = ''24''"
  by (simp add: Sprintf_d_def decimal.simps)

lemma Sprintf_d_500: "Sprintf_d 500 = ''500''"
  by (simp add: Sprintf_d_def decimal.simps)

lemma ensureAuthenticated_with_token:
  "Token c \<noteq> '''' \<Longrightarrow> ensureAuthenticated env c s = (None, c, s)"
  by (simp add: ensureAuthenticated_def)

lemma c_tok_authenticated: "ensureAuthenticated env c_tok s = (None, c_tok, s)"
  by (simp add: ensureAuthenticated_def c_tok_def)

lemma sim_env_req_Do: "req_Do (sim_env srv) w rq = (srv rq, w)"
  by (simp add: sim_env_def)

lemma Login_URL: "Login env c s = (r, c', s') \<Longrightarrow> Client.URL c' = Client.URL c"
  by (auto simp add: Login_def Let_def split: option.splits prod.splits sum.splits if_splits)

lemma ensureAuthenticated_URL:
  "ensureAuthenticated env c s = (r, c', s') \<Longrightarrow> Client.URL c' = Client.URL c"
  by (auto simp add: ensureAuthenticated_def dest: Login_URL split: if_splits)

text \<open>
  Each operation either returns on its argument checks, changing nothing, or runs the
  guard on the client and state it was given and then adds events that are not logins.
\<close>

lemma Upload_guard:
  assumes "Upload env c s lp rp = (r, c', s')"
  shows "(c' = c \<and> s' = s)
         \<or> (\<exists>r1 s1 evs. ensureAuthenticated env c s = (r1, c', s1)
               \<and> trace s' = trace s1 @ evs \<and> filter is_login evs = [])"
proof (cases "ensureAuthenticated env c s")
  case (fields r1 c1 s1)
  with assms show ?thesis
    by (auto simp add: Upload_def Let_def split: if_splits option.splits prod.splits)
qed

lemma Share_guard:
  assumes "Share env c s rp ex pw un = (r, c', s')"
  shows "(c' = c \<and> s' = s)
         \<or> (\<exists>r1 s1 evs. ensureAuthenticated env c s = (r1, c', s1)
               \<and> trace s' = trace s1 @ evs \<and> filter is_login evs = [])"
proof (cases "ensureAuthenticated env c s")
  case (fields r1 c1 s1)
  with assms show ?thesis
    by (auto simp add: Share_def send_def Let_def
        split: if_splits option.splits prod.splits sum.splits)
qed

lemma GetResource_guard:
  assumes "GetResource env c s rp = (r, c', s')"
  shows "(c' = c \<and> s' = s)
         \<or> (\<exists>r1 s1 evs. ensureAuthenticated env c s = (r1, c', s1)
               \<and> trace s' = trace s1 @ evs \<and> filter is_login evs = [])"
proof (cases "ensureAuthenticated env c s")
  case (fields r1 c1 s1)
  with assms show ?thesis
    by (auto simp add: GetResource_def send_def
        split: if_splits option.splits prod.splits sum.splits)
qed

lemma DeleteResource_guard:
  assumes "DeleteResource env c s rp = (r, c', s')"
  shows "(c' = c \<and> s' = s)
         \<or> (\<exists>r1 s1 evs. ensureAuthenticated env c s = (r1, c', s1)
               \<and> trace s' = trace s1 @ evs \<and> filter is_login evs = [])"
proof (cases "ensureAuthenticated env c s")
  case (fields r1 c1 s1)
  with assms show ?thesis
    by (auto simp add: DeleteResource_def send_def
        split: if_splits option.splits prod.splits sum.splits)
qed

lemma exec_guard:
  assumes "exec env (c, s) call = (c', s')"
  shows "(c' = c \<and> s' = s)
         \<or> (\<exists>r1 s1 evs. ensureAuthenticated env c s = (r1, c', s1)
               \<and> trace s' = trace s1 @ evs \<and> filter is_login evs = [])"
proof (cases call)
  case (CallUpload lp rp)
  with assms obtain r where "Upload env c s lp rp = (r, c', s')"
    by (cases "Upload env c s lp rp") simp
  then show ?thesis by (rule Upload_guard)
next
  case (CallShare rp ex pw un)
  with assms obtain r where "Share env c s rp ex pw un = (r, c', s')"
    by (cases "Share env c s rp ex pw un") simp
  then show ?thesis by (rule Share_guard)
next
  case (CallGetResource rp)
  with assms obtain r where "GetResource env c s rp = (r, c', s')"
    by (cases "GetResource env c s rp") simp
  then show ?thesis by (rule GetResource_guard)
next
  case (CallDeleteResource rp)
  with assms obtain r where "DeleteResource env c s rp = (r, c', s')"
    by (cases "DeleteResource env c s rp") simp
  then show ?thesis by (rule DeleteResource_guard)
qed

lemma GetResource_URL: "GetResource env c s rp = (r, c', s') \<Longrightarrow> Client.URL c' = Client.URL c"
  by (drule GetResource_guard) (auto dest: ensureAuthenticated_URL)

lemma DeleteResource_URL:
  "DeleteResource env c s rp = (r, c', s') \<Longrightarrow> Client.URL c' = Client.URL c"
  by (drule DeleteResource_guard) (auto dest: ensureAuthenticated_URL)

lemma Upload_URL: "Upload env c s lp rp = (r, c', s') \<Longrightarrow> Client.URL c' = Client.URL c"
  by (drule Upload_guard) (auto dest: ensureAuthenticated_URL)

lemma Share_URL: "Share env c s rp ex pw un = (r, c', s') \<Longrightarrow> Client.URL c' = Client.URL c"
  by (drule Share_guard) (auto dest: ensureAuthenticated_URL)

lemma Share_hash_not_empty: "Share env c s rp ex pw un = (Inr h, c', s') \<Longrightarrow> h \<noteq> ''''"
  by (auto simp add: Share_def Let_def split: if_splits option.splits prod.splits sum.splits)

lemma SaveAndShare_sync_URL:
  "SaveAndShare_sync env c s lp rp r p = (e, c', s') \<Longrightarrow> Client.URL c' = Client.URL c"
  by (auto simp add: SaveAndShare_sync_def split: if_splits option.splits prod.splits
      dest!: DeleteResource_URL Upload_URL)

lemma login_succeeded_is_login: "login_succeeded e \<Longrightarrow> is_login e"
  by (cases e rule: login_succeeded.cases) simp_all

lemma no_login_no_success: "filter is_login evs = [] \<Longrightarrow> filter login_succeeded evs = []"
  by (auto simp add: filter_empty_conv dest: login_succeeded_is_login)

lemma filter_success_of_logins:
  "filter login_succeeded (filter is_login xs) = filter login_succeeded xs"
  by (induction xs) (auto dest: login_succeeded_is_login)

lemma Login_outcome:
  assumes "Login env c s = (r, c', s')"
  shows "(Token c' = '''' \<and> filter login_succeeded (trace s') = filter login_succeeded (trace s))
         \<or> (r = None \<and> Token c' \<noteq> ''''
             \<and> length (filter login_succeeded (trace s'))
                 = length (filter login_succeeded (trace s)) + 1)
         \<or> (r \<noteq> None \<and> c' = c
             \<and> filter login_succeeded (trace s') = filter login_succeeded (trace s))"
  using assms
  by (auto simp add: Login_def send_def login_request_def Let_def
      split: option.splits prod.splits sum.splits if_splits)

lemma ensureAuthenticated_without_token:
  assumes "Token c = ''''" and "ensureAuthenticated env c s = (r, c', s')"
  shows "(Token c' = '''' \<and> filter login_succeeded (trace s') = filter login_succeeded (trace s))
         \<or> (Token c' \<noteq> ''''
             \<and> length (filter login_succeeded (trace s'))
                 = length (filter login_succeeded (trace s)) + 1)"
proof -
  from assms have "Login env c s = (r, c', s')"
    by (simp add: ensureAuthenticated_def)
  from Login_outcome [OF this] assms(1) show ?thesis by auto
qed

lemma exec_with_token:
  assumes "Token c \<noteq> ''''" and "exec env (c, s) call = (c', s')"
  shows "c' = c \<and> filter is_login (trace s') = filter is_login (trace s)"
  using exec_guard [OF assms(2)] ensureAuthenticated_with_token [OF assms(1), of env s]
  by auto

lemma exec_without_token:
  assumes "Token c = ''''" and "exec env (c, s) call = (c', s')"
  shows "(Token c' = ''''
          \<and> length (filter login_succeeded (trace s')) = length (filter login_succeeded (trace s)))
         \<or> (Token c' \<noteq> ''''
             \<and> length (filter login_succeeded (trace s'))
                 = length (filter login_succeeded (trace s)) + 1)"
proof -
  from exec_guard [OF assms(2)] consider
      "c' = c" "s' = s"
    | r1 s1 evs where "ensureAuthenticated env c s = (r1, c', s1)"
        "trace s' = trace s1 @ evs" "filter is_login evs = []"
    by blast
  then show ?thesis
  proof cases
    case 1
    with assms(1) show ?thesis by simp
  next
    case 2
    from 2(3) have "filter login_succeeded evs = []" by (rule no_login_no_success)
    with 2(2) have "filter login_succeeded (trace s') = filter login_succeeded (trace s1)"
      by simp
    with ensureAuthenticated_without_token [OF assms(1) 2(1)] show ?thesis by auto
  qed
qed

lemma run_with_token:
  "Token c \<noteq> '''' \<Longrightarrow>
   fst (run env (c, s) calls) = c
   \<and> filter is_login (trace (snd (run env (c, s) calls))) = filter is_login (trace s)"
proof (induction calls arbitrary: s)
  case Nil
  then show ?case by (simp add: run_def)
next
  case (Cons call calls)
  obtain c1 s1 where e: "exec env (c, s) call = (c1, s1)"
    by (cases "exec env (c, s) call")
  from exec_with_token [OF Cons.prems e]
  have "c1 = c" and "filter is_login (trace s1) = filter is_login (trace s)" by simp_all
  with Cons.IH [OF Cons.prems, of s1] e show ?case
    by (simp add: run_def)
qed

lemma run_success_count:
  "length (filter login_succeeded (trace (snd (run env (c, s) calls))))
     \<le> length (filter login_succeeded (trace s)) + (if Token c = '''' then 1 else 0)"
proof (induction calls arbitrary: c s)
  case Nil
  then show ?case by (simp add: run_def)
next
  case (Cons call calls)
  obtain c1 s1 where e: "exec env (c, s) call = (c1, s1)"
    by (cases "exec env (c, s) call")
  have r: "run env (c, s) (call # calls) = run env (c1, s1) calls"
    by (simp add: run_def e)
  show ?case
  proof (cases "Token c = ''''")
    case True
    from exec_without_token [OF True e] Cons.IH [of c1 s1] show ?thesis
      unfolding r using True by (auto split: if_splits)
  next
    case False
    from exec_with_token [OF False e]
    have c: "c1 = c"
      and f: "filter is_login (trace s1) = filter is_login (trace s)" by simp_all
    have "filter login_succeeded (trace s1) = filter login_succeeded (filter is_login (trace s1))"
      by (simp only: filter_success_of_logins)
    also have "\<dots> = filter login_succeeded (filter is_login (trace s))"
      by (simp only: f)
    also have "\<dots> = filter login_succeeded (trace s)"
      by (simp only: filter_success_of_logins)
    finally have "filter login_succeeded (trace s1) = filter login_succeeded (trace s)" .
    with c Cons.IH [of c1 s1] False show ?thesis
      unfolding r by simp
  qed
qed

section \<open>The synchronization policy\<close>

text \<open>
  Claim C1. The decision in \<open>SaveAndShare\<close> carries out exactly one action, fixed by
  whether the resource exists, the force flag, the expected size and the remote size: an
  absent resource is uploaded; an existing one with the force flag set is deleted and
  then uploaded, whatever the sizes; an existing one without the flag is skipped when the
  expected size is unknown (at most 0) or equal to the remote size, and deleted and then
  uploaded when the expected size is known and differs. The force flag is looked at
  before the sizes: the second case has no condition on them.
\<close>

theorem SaveAndShare_sync_policy:
  "(NotExist r \<longrightarrow>
      SaveAndShare_sync env c s lp rp r p = perform env c s lp rp '''' UploadOnly)
   \<and> (\<not> NotExist r \<and> Force p \<longrightarrow>
        SaveAndShare_sync env c s lp rp r p
          = perform env c s lp rp ''failed to delete existing resource: '' DeleteThenUpload)
   \<and> (\<not> NotExist r \<and> \<not> Force p \<and> (sint (FileSize p) \<le> 0 \<or> Size r = FileSize p) \<longrightarrow>
        SaveAndShare_sync env c s lp rp r p = perform env c s lp rp '''' Skip)
   \<and> (\<not> NotExist r \<and> \<not> Force p \<and> 0 < sint (FileSize p) \<and> Size r \<noteq> FileSize p \<longrightarrow>
        SaveAndShare_sync env c s lp rp r p
          = perform env c s lp rp ''failed to delete mismatched resource: '' DeleteThenUpload)"
  by (auto simp add: SaveAndShare_sync_def upload_stage_def split: prod.splits option.splits)

text \<open>
  The five rows of the table on the simulated server, with the requests each one makes:
  absent; present and forced with equal sizes; present with unknown size; present with
  equal sizes; present with different sizes.
\<close>

theorem SaveAndShare_sync_policy_witness:
  "trace (snd (snd (SaveAndShare_sync sim_ok c_tok s_file ''/tmp/a.pdf'' ''up/a.pdf''
        (RespResource_zero\<lparr>NotExist := True\<rparr>) (params 12 False))))
     = [TusCreate ''http://fb/api/tus/up/a.pdf'' ''tok'' ''/tmp/a.pdf'',
        TusTransfer ''http://fb/api/tus/up/a.pdf'' ''tok'' ''/tmp/a.pdf'']
   \<and> trace (snd (snd (SaveAndShare_sync sim_ok c_tok s_file ''/tmp/a.pdf'' ''up/a.pdf''
        (res_size 12) (params 12 True))))
     = [Http \<lparr>Method = DELETE, Url = ''http://fb/api/resources/up/a.pdf'',
               XAuth = Some ''tok'', Body = NoBody\<rparr> (Inr (StatusResp 200 '''')),
        TusCreate ''http://fb/api/tus/up/a.pdf'' ''tok'' ''/tmp/a.pdf'',
        TusTransfer ''http://fb/api/tus/up/a.pdf'' ''tok'' ''/tmp/a.pdf'']
   \<and> SaveAndShare_sync sim_ok c_tok s_file ''/tmp/a.pdf'' ''up/a.pdf''
        (res_size 7) (params 0 False) = (None, c_tok, s_file)
   \<and> SaveAndShare_sync sim_ok c_tok s_file ''/tmp/a.pdf'' ''up/a.pdf''
        (res_size 12) (params 12 False) = (None, c_tok, s_file)
   \<and> trace (snd (snd (SaveAndShare_sync sim_ok c_tok s_file ''/tmp/a.pdf'' ''up/a.pdf''
        (res_size 7) (params 12 False))))
     = [Http \<lparr>Method = DELETE, Url = ''http://fb/api/resources/up/a.pdf'',
               XAuth = Some ''tok'', Body = NoBody\<rparr> (Inr (StatusResp 200 '''')),
        TusCreate ''http://fb/api/tus/up/a.pdf'' ''tok'' ''/tmp/a.pdf'',
        TusTransfer ''http://fb/api/tus/up/a.pdf'' ''tok'' ''/tmp/a.pdf'']"
proof -
  have n: "NotExist (RespResource_zero\<lparr>NotExist := True\<rparr>)" "\<not> NotExist (res_size k)"
    "Size (res_size k) = k" for k
    by (simp_all add: res_size_def RespResource_zero_def)
  have p: "Force (params k b) = b" "FileSize (params k b) = k" for k b
    by (simp_all add: params_def)
  have u: "upload_stage sim_ok c_tok s ''/tmp/a.pdf'' ''up/a.pdf''
      = (None, c_tok, s\<lparr>trace := trace s @
           [TusCreate ''http://fb/api/tus/up/a.pdf'' ''tok'' ''/tmp/a.pdf'',
            TusTransfer ''http://fb/api/tus/up/a.pdf'' ''tok'' ''/tmp/a.pdf'']\<rparr>)"
    if "world s = [(''/tmp/a.pdf'', 12)]" for s
    using that by (simp add: upload_stage_def Upload_def ensureAuthenticated_def sim_ok_def
        sim_env_def c_tok_def Let_def)
  have d: "DeleteResource sim_ok c_tok s_file ''up/a.pdf''
      = (None, c_tok, s_file\<lparr>trace :=
           [Http \<lparr>Method = DELETE, Url = ''http://fb/api/resources/up/a.pdf'',
                  XAuth = Some ''tok'', Body = NoBody\<rparr> (Inr (StatusResp 200 ''''))]\<rparr>)"
    by (simp add: DeleteResource_def ensureAuthenticated_def send_def sim_ok_def sim_env_def
        sim_server_def StatusResp_def c_tok_def s_file_def StatusOK_def StatusNotFound_def)
  have w: "world s_file = [(''/tmp/a.pdf'', 12)]" "trace s_file = []"
    by (simp_all add: s_file_def)
  show ?thesis
    using SaveAndShare_sync_policy [of "RespResource_zero\<lparr>NotExist := True\<rparr>" sim_ok c_tok
        s_file "''/tmp/a.pdf''" "''up/a.pdf''" "params 12 False"]
      SaveAndShare_sync_policy [of "res_size 12" sim_ok c_tok s_file
        "''/tmp/a.pdf''" "''up/a.pdf''" "params 12 True"]
      SaveAndShare_sync_policy [of "res_size 7" sim_ok c_tok s_file
        "''/tmp/a.pdf''" "''up/a.pdf''" "params 0 False"]
      SaveAndShare_sync_policy [of "res_size 12" sim_ok c_tok s_file
        "''/tmp/a.pdf''" "''up/a.pdf''" "params 12 False"]
      SaveAndShare_sync_policy [of "res_size 7" sim_ok c_tok s_file
        "''/tmp/a.pdf''" "''up/a.pdf''" "params 12 False"]
    by (simp add: n p u d w)
qed

section \<open>The local cache check\<close>

text \<open>
  Claim C2. For every expected size of at most 0, the check \<open>DownloadToLocal\<close> makes
  before it fetches, \<open>fileSize > 0\<close> and then \<open>fileExistsWithSameSize\<close>, is false whatever
  the state of the file at the local path, a file of exactly that size included; so with
  a valid URL and the directory in place the download is made and recorded.
\<close>

theorem DownloadToLocal_unknown_size_fetches:
  assumes "sint fileSize \<le> 0"
      and "fileURL \<noteq> ''''"
      and "EnsureFolderForFile env s (LocalPathForDownload env fileURL) = (None, s1)"
    shows "\<not> (0 < sint fileSize
               \<and> fileExistsWithSameSize env (world s1) (LocalPathForDownload env fileURL) fileSize)
           \<and> snd (DownloadToLocal env s fileURL fileSize) =
               s1\<lparr>world := snd (netutil_DownloadFile env (world s1)
                                   (LocalPathForDownload env fileURL) fileURL),
                  trace := trace s1 @ [Download (LocalPathForDownload env fileURL) fileURL]\<rparr>"
  using assms
  by (simp add: DownloadToLocal_def Let_def split: prod.splits option.splits)

text \<open>
  An empty file is at the local path and the expected size is 0: the download is made
  all the same.
\<close>

theorem DownloadToLocal_unknown_size_fetches_witness:
  "fileutil_FileSize (sim_env (\<lambda>rq. Inl ''offline'')) [(''/tmp/a.pdf'', 0)] ''/tmp/a.pdf'' = Inr 0
   \<and> snd (DownloadToLocal (sim_env (\<lambda>rq. Inl ''offline''))
           \<lparr>world = [(''/tmp/a.pdf'', 0)], trace = []\<rparr> ''https://x/a.pdf'' 0)
     = \<lparr>world = [(''/tmp/a.pdf'', 12), (''/tmp/a.pdf'', 0)],
        trace = [Download ''/tmp/a.pdf'' ''https://x/a.pdf'']\<rparr>"
proof -
  have z: "sint (0 :: int64) \<le> 0" by simp
  have u: "''https://x/a.pdf'' \<noteq> ''''" by simp
  have l: "LocalPathForDownload (sim_env srv) ''https://x/a.pdf'' = ''/tmp/a.pdf''" for srv
    by (simp add: LocalPathForDownload_def sim_env_def sim_url_path_def TrimPrefix_def)
  have e: "EnsureFolderForFile (sim_env srv) \<lparr>world = w, trace = []\<rparr> ''/tmp/a.pdf''
             = (None, \<lparr>world = w, trace = []\<rparr>)" for srv w
    by (simp add: EnsureFolderForFile_def sim_env_def)
  show ?thesis
    using DownloadToLocal_unknown_size_fetches [OF z u,
        of "sim_env (\<lambda>rq. Inl ''offline'')" "\<lparr>world = [(''/tmp/a.pdf'', 0)], trace = []\<rparr>"
           "\<lparr>world = [(''/tmp/a.pdf'', 0)], trace = []\<rparr>"]
    by (simp add: l e) (simp add: sim_env_def)
qed

section \<open>The body of a share request\<close>

text \<open>
  Claim C3, as amended. Whenever \<open>Share\<close> gets as far as its request (the remote path is
  not empty and the guard succeeds), the body it posts has the three members
  \<open>Expires\<close>, \<open>Password\<close> and \<open>Unit\<close>: with an expiration of at most 0 each of them is the
  empty string, so that none of the expiration, the unit and the password given by the
  caller goes out; with an expiration above 0 they are the expiration in decimal, the
  password and the unit as given.
\<close>

theorem Share_request_body:
  assumes "remotePath \<noteq> ''''"
      and "ensureAuthenticated env c s = (None, c1, s1)"
    shows "\<exists>b r. trace (snd (snd (Share env c s remotePath expires password unit))) =
               trace s1 @
               [Http \<lparr>Method = POST, Url = Client.URL c1 @ ''/api/share/'' @ remotePath,
                      XAuth = Some (Token c1), Body = ShareBody b\<rparr> r]
             \<and> json_members (ShareBody b) =
                 (if sint expires \<le> 0
                  then [(''Expires'', ''''), (''Password'', ''''), (''Unit'', '''')]
                  else [(''Expires'', Sprintf_d (sint expires)), (''Password'', password),
                        (''Unit'', unit)])"
  using assms
  by (auto simp add: Share_def send_def ReqShare_zero_def Let_def split: prod.splits sum.splits)

theorem Share_request_body_witness:
  "map sent_members (trace (snd (snd (Share sim_ok c_tok s0 ''a'' 24 ''pw'' ''hours''))))
     = [[(''Expires'', ''24''), (''Password'', ''pw''), (''Unit'', ''hours'')]]
   \<and> map sent_members (trace (snd (snd (Share sim_ok c_tok s0 ''a'' (- 1) ''pw'' ''hours''))))
     = [[(''Expires'', ''''), (''Password'', ''''), (''Unit'', '''')]]"
proof -
  have p: "''a'' \<noteq> ''''" by simp
  have t: "trace s0 = []" by (simp add: s0_def)
  show ?thesis
    using Share_request_body [OF p c_tok_authenticated, of sim_ok s0 24 "''pw''" "''hours''"]
      Share_request_body [OF p c_tok_authenticated, of sim_ok s0 "- 1" "''pw''" "''hours''"]
    by (auto simp add: t Sprintf_d_24)
qed

text \<open>
  With the expiration 0 the three members are not left out of the body: they go out,
  each with the empty string.
\<close>

theorem Share_no_expiry_members_counterexample:
  "map (map fst \<circ> sent_members) (trace (snd (snd (Share sim_ok c_tok s0 ''a'' 0 ''pw'' ''hours''))))
     = [[''Expires'', ''Password'', ''Unit'']]"
  by (simp add: Share_def send_def sim_ok_def sim_env_def sim_server_def StatusResp_def
      ensureAuthenticated_def c_tok_def s0_def StatusOK_def ReqShare_zero_def)

section \<open>Resource metadata\<close>

text \<open>
  Claim C4, as amended. Once \<open>GetResource\<close> has its response, a 404 gives a normal
  result that is empty but for \<open>NotExist\<close> being true; every other status that is not
  200 gives an error; a 200 gives the metadata exactly as decoded from the body, its
  \<open>NotExist\<close> field being the decoded one and not set to false.
\<close>

theorem GetResource_status:
  assumes "remotePath \<noteq> ''''"
      and "ensureAuthenticated env c s = (None, c1, s1)"
      and "req_Do env (world s1)
             \<lparr>Method = GET, Url = Client.URL c1 @ ''/api/resources/'' @ remotePath,
              XAuth = Some (Token c1), Body = NoBody\<rparr> = (Inr resp, w2)"
    shows "fst (GetResource env c s remotePath) =
             (if StatusCode resp = 404 then Inr (RespResource_zero\<lparr>NotExist := True\<rparr>)
              else if StatusCode resp \<noteq> 200
              then Inl (''resource request failed with status code: ''
                         @ Sprintf_d (StatusCode resp))
              else Inr (unmarshalResource env (String resp)))"
  using assms by (simp add: GetResource_def send_def StatusOK_def StatusNotFound_def)

theorem GetResource_status_witness:
  "fst (GetResource (sim_env (\<lambda>rq. Inr (StatusResp 404 ''''))) c_tok s0 ''a'')
     = Inr (RespResource_zero\<lparr>NotExist := True\<rparr>)
   \<and> fst (GetResource (sim_env (\<lambda>rq. Inr (StatusResp 500 ''''))) c_tok s0 ''a'')
       = Inl ''resource request failed with status code: 500''
   \<and> fst (GetResource (sim_env (\<lambda>rq. Inr (StatusResp 200 size12_body))) c_tok s0 ''a'')
       = Inr (RespResource_zero\<lparr>Size := 12\<rparr>)"
proof -
  have p: "''a'' \<noteq> ''''" by simp
  have u: "unmarshalResource (sim_env srv) = sim_unmarshalResource" for srv
    by (simp add: sim_env_def)
  show ?thesis
    using GetResource_status [OF p c_tok_authenticated [where s = s0],
        of "sim_env (\<lambda>rq. Inr (StatusResp 404 ''''))" "StatusResp 404 ''''" "[]"]
      GetResource_status [OF p c_tok_authenticated [where s = s0],
        of "sim_env (\<lambda>rq. Inr (StatusResp 500 ''''))" "StatusResp 500 ''''" "[]"]
      GetResource_status [OF p c_tok_authenticated [where s = s0],
        of "sim_env (\<lambda>rq. Inr (StatusResp 200 size12_body))" "StatusResp 200 size12_body" "[]"]
    by (simp add: u sim_env_req_Do s0_def Sprintf_d_500 StatusResp_def sim_unmarshalResource_def
        size12_body_def not_exist_body_def)
qed

text \<open>
  The server answers 200 with a body that sets \<open>not_exist\<close>: the result is a normal one
  whose \<open>NotExist\<close> is true.
\<close>

theorem GetResource_OK_NotExist_counterexample:
  "req_Do (sim_env (\<lambda>rq. Inr (StatusResp 200 not_exist_body))) (world s0)
      \<lparr>Method = GET, Url = ''http://fb/api/resources/a'', XAuth = Some ''tok'', Body = NoBody\<rparr>
     = (Inr \<lparr>StatusCode = 200, String = not_exist_body\<rparr>, [])
   \<and> NotExist (unmarshalResource (sim_env (\<lambda>rq. Inr (StatusResp 200 not_exist_body)))
                 not_exist_body)
   \<and> fst (GetResource (sim_env (\<lambda>rq. Inr (StatusResp 200 not_exist_body))) c_tok s0 ''a'')
     = Inr (unmarshalResource (sim_env (\<lambda>rq. Inr (StatusResp 200 not_exist_body)))
             not_exist_body)"
  by (simp add: GetResource_def send_def sim_env_def StatusResp_def ensureAuthenticated_def
      c_tok_def s0_def StatusOK_def StatusNotFound_def sim_unmarshalResource_def)

section \<open>The local path of a download\<close>

text \<open>
  Claim C5. For a URL that parses, \<open>LocalPathForDownload\<close> joins the temp directory with
  the path component of the URL less its leading slash, and with \<open>downloaded_file\<close> when
  nothing is left. With the path components \<open>url.Parse\<close> gives for them, the URL
  \<open>https://x/files/a.pdf\<close> maps to the temp directory joined with \<open>files/a.pdf\<close>,
  \<open>https://x/a.pdf\<close> to it joined with \<open>a.pdf\<close>, and \<open>https://x/\<close> to it joined with
  \<open>downloaded_file\<close>.
\<close>

theorem LocalPathForDownload_from_url_path:
  "(url_Parse_Path env fileURL = Inr p \<longrightarrow>
      LocalPathForDownload env fileURL =
        filepath_Join env
          [os_TempDir env,
           if TrimPrefix p ''/'' = '''' then ''downloaded_file'' else TrimPrefix p ''/''])
   \<and> (url_Parse_Path env ''https://x/files/a.pdf'' = Inr ''/files/a.pdf'' \<longrightarrow>
        LocalPathForDownload env ''https://x/files/a.pdf''
          = filepath_Join env [os_TempDir env, ''files/a.pdf''])
   \<and> (url_Parse_Path env ''https://x/a.pdf'' = Inr ''/a.pdf'' \<longrightarrow>
        LocalPathForDownload env ''https://x/a.pdf''
          = filepath_Join env [os_TempDir env, ''a.pdf''])
   \<and> (url_Parse_Path env ''https://x/'' = Inr ''/'' \<longrightarrow>
        LocalPathForDownload env ''https://x/''
          = filepath_Join env [os_TempDir env, ''downloaded_file''])"
  by (simp add: LocalPathForDownload_def TrimPrefix_def Let_def)

theorem LocalPathForDownload_from_url_path_witness:
  "LocalPathForDownload sim_ok ''https://x/files/a.pdf'' = ''/tmp/files/a.pdf''
   \<and> LocalPathForDownload sim_ok ''https://x/a.pdf'' = ''/tmp/a.pdf''
   \<and> LocalPathForDownload sim_ok ''https://x/'' = ''/tmp/downloaded_file''"
proof -
  have 1: "url_Parse_Path sim_ok ''https://x/files/a.pdf'' = Inr ''/files/a.pdf''"
    by (simp add: sim_ok_def sim_env_def sim_url_path_def)
  have 2: "url_Parse_Path sim_ok ''https://x/a.pdf'' = Inr ''/a.pdf''"
    by (simp add: sim_ok_def sim_env_def sim_url_path_def)
  have 3: "url_Parse_Path sim_ok ''https://x/'' = Inr ''/''"
    by (simp add: sim_ok_def sim_env_def sim_url_path_def)
  have j: "filepath_Join sim_ok [os_TempDir sim_ok, q] = ''/tmp/'' @ q" for q
    by (simp add: sim_ok_def sim_env_def)
  show ?thesis
    using LocalPathForDownload_from_url_path [of sim_ok]
    by (simp add: 1 2 3 j)
qed

section \<open>Deleting a resource\<close>

text \<open>
  Claim C6. Once \<open>DeleteResource\<close> has its response, the statuses 200 (deleted) and 404
  (already absent) both give no error, and every other status gives an error.
\<close>

theorem DeleteResource_status:
  assumes "remotePath \<noteq> ''''"
      and "ensureAuthenticated env c s = (None, c1, s1)"
      and "req_Do env (world s1)
             \<lparr>Method = DELETE, Url = Client.URL c1 @ ''/api/resources/'' @ remotePath,
              XAuth = Some (Token c1), Body = NoBody\<rparr> = (Inr resp, w2)"
    shows "fst (DeleteResource env c s remotePath) =
             (if StatusCode resp = 200 \<or> StatusCode resp = 404 then None
              else Some (''delete request failed with status code: ''
                          @ Sprintf_d (StatusCode resp)))"
  using assms by (simp add: DeleteResource_def send_def StatusOK_def StatusNotFound_def)

theorem DeleteResource_status_witness:
  "fst (DeleteResource (sim_env (\<lambda>rq. Inr (StatusResp 200 ''''))) c_tok s0 ''a'') = None
   \<and> fst (DeleteResource (sim_env (\<lambda>rq. Inr (StatusResp 404 ''''))) c_tok s0 ''a'') = None
   \<and> fst (DeleteResource (sim_env (\<lambda>rq. Inr (StatusResp 500 ''''))) c_tok s0 ''a'')
       = Some ''delete request failed with status code: 500''"
proof -
  have p: "''a'' \<noteq> ''''" by simp
  show ?thesis
    using DeleteResource_status [OF p c_tok_authenticated [where s = s0],
        of "sim_env (\<lambda>rq. Inr (StatusResp 200 ''''))" "StatusResp 200 ''''" "[]"]
      DeleteResource_status [OF p c_tok_authenticated [where s = s0],
        of "sim_env (\<lambda>rq. Inr (StatusResp 404 ''''))" "StatusResp 404 ''''" "[]"]
      DeleteResource_status [OF p c_tok_authenticated [where s = s0],
        of "sim_env (\<lambda>rq. Inr (StatusResp 500 ''''))" "StatusResp 500 ''''" "[]"]
    by (simp add: sim_env_req_Do s0_def Sprintf_d_500 StatusResp_def)
qed

section \<open>Credential validation\<close>

text \<open>
  Claim C7. \<open>FilebrowserAuth.Validate\<close> returns an error exactly when at least one of the
  URL, the username and the password is the empty string, whichever it is; with all three
  non-empty it returns no error.
\<close>

theorem Validate_error_iff_some_field_empty:
  "(Validate auth \<noteq> None) =
     (FilebrowserAuth.URL auth = '''' \<or> FilebrowserAuth.Username auth = ''''
      \<or> FilebrowserAuth.Password auth = '''')"
  by (simp add: Validate_def)

section \<open>The two URLs of a share\<close>

text \<open>
  Claim C8. When \<open>SaveAndShare\<close> succeeds, its result is the pair of URLs built from the
  base address of the credentials and the hash that its call of \<open>Share\<close> returned, which
  is not empty: the view URL is the base, \<open>/share/\<close> and the hash, and the download URL is
  the base, \<open>/api/public/dl/\<close> and the hash.
\<close>

theorem SaveAndShare_result_urls:
  assumes "SaveAndShare env s auth externalURL remotePathFn actionParams = (Inr result, s')"
  shows "\<exists>c3 s3 c4 remotePath hash.
           Share env c3 s3 remotePath
               (ShareParams.Expires (ShareParams actionParams))
               (ShareParams.Password (ShareParams actionParams))
               (ShareParams.Unit (ShareParams actionParams)) = (Inr hash, c4, s')
           \<and> hash \<noteq> ''''
           \<and> result = \<lparr>ViewUrl = FilebrowserAuth.URL auth @ ''/share/'' @ hash,
                        DownloadUrl = FilebrowserAuth.URL auth @ ''/api/public/dl/'' @ hash\<rparr>"
proof -
  from assms obtain f localPath s1 resourceRet c2 s2 c3 s3 hash c4 where
    g: "GetResource env
          \<lparr>Client.URL = FilebrowserAuth.URL auth, Client.Username = FilebrowserAuth.Username auth,
           Client.Password = FilebrowserAuth.Password auth, Token = ''''\<rparr>
          s1 (f (filepath_Base env localPath)) = (Inr resourceRet, c2, s2)"
    and y: "SaveAndShare_sync env c2 s2 localPath (f (filepath_Base env localPath))
              resourceRet actionParams = (None, c3, s3)"
    and h: "Share env c3 s3 (f (filepath_Base env localPath))
              (ShareParams.Expires (ShareParams actionParams))
              (ShareParams.Password (ShareParams actionParams))
              (ShareParams.Unit (ShareParams actionParams)) = (Inr hash, c4, s')"
    and r: "result = \<lparr>ViewUrl = Client.URL c4 @ ''/share/'' @ hash,
                      DownloadUrl = Client.URL c4 @ ''/api/public/dl/'' @ hash\<rparr>"
    by (auto simp add: SaveAndShare_def Let_def
        split: option.splits if_splits prod.splits sum.splits)
  from GetResource_URL [OF g] SaveAndShare_sync_URL [OF y] Share_URL [OF h]
  have "Client.URL c4 = FilebrowserAuth.URL auth" by simp
  with r h Share_hash_not_empty [OF h] show ?thesis by blast
qed

text \<open>
  The end-to-end run on the simulated server, where the resource is absent: download,
  login, metadata query, upload, share, and the two URLs with the hash \<open>h4sh\<close>.
\<close>

theorem SaveAndShare_result_urls_witness:
  "fst (SaveAndShare sim_ok s0 auth0 ''https://x/a.pdf'' (Some (\<lambda>name. ''up/'' @ name))
         (params 0 False))
     = Inr \<lparr>ViewUrl = ''http://fb/share/h4sh'', DownloadUrl = ''http://fb/api/public/dl/h4sh''\<rparr>"
proof -
  have l: "LocalPathForDownload sim_ok ''https://x/a.pdf'' = ''/tmp/a.pdf''"
    by (simp add: LocalPathForDownload_def sim_ok_def sim_env_def sim_url_path_def TrimPrefix_def)
  have dl: "DownloadToLocal sim_ok s0 ''https://x/a.pdf'' 0
      = (Inr ''/tmp/a.pdf'', \<lparr>world = [(''/tmp/a.pdf'', 12)],
           trace = [Download ''/tmp/a.pdf'' ''https://x/a.pdf'']\<rparr>)"
    by (simp add: DownloadToLocal_def l EnsureFolderForFile_def Let_def)
      (simp add: sim_ok_def sim_env_def s0_def)
  have b: "filepath_Base sim_ok ''/tmp/a.pdf'' = ''a.pdf''"
    by (simp add: sim_ok_def sim_env_def sim_base_def)
  have e: "fst (SaveAndShare sim_ok s0 auth0 ''https://x/a.pdf'' (Some (\<lambda>name. ''up/'' @ name))
                 (params 0 False))
     = Inr \<lparr>ViewUrl = ''http://fb/share/h4sh'', DownloadUrl = ''http://fb/api/public/dl/h4sh''\<rparr>"
    by (simp add: SaveAndShare_def Validate_def auth0_def params_def dl b Let_def)
      (simp add: SaveAndShare_sync_def RespResource_zero_def Sprintf_d_24 op_defs Let_def
        sim_ok_def sim_env_def sim_server_def StatusResp_def)
  then have "SaveAndShare sim_ok s0 auth0 ''https://x/a.pdf'' (Some (\<lambda>name. ''up/'' @ name))
        (params 0 False)
     = (Inr \<lparr>ViewUrl = ''http://fb/share/h4sh'', DownloadUrl = ''http://fb/api/public/dl/h4sh''\<rparr>,
        snd (SaveAndShare sim_ok s0 auth0 ''https://x/a.pdf'' (Some (\<lambda>name. ''up/'' @ name))
               (params 0 False)))"
    by (simp add: prod_eq_iff)
  from SaveAndShare_result_urls [OF this] e show ?thesis by simp
qed

section \<open>Lazy authentication\<close>

text \<open>
  Claim C9, as amended. Each of \<open>Upload\<close>, \<open>Share\<close>, \<open>GetResource\<close> and \<open>DeleteResource\<close>
  either returns on its argument checks, changing nothing, or runs the guard
  \<open>ensureAuthenticated\<close> on the client and state it was given before anything else, and
  sends no login after it. The guard does nothing when a token is held. So over any
  sequence of these operations on one client: once a non-empty token is held, the token
  stays the same and no login is sent at all; and from any start at most one login
  succeeds. A login that fails leaves no token, and nothing is said here on how often
  such a login is sent.
\<close>

theorem login_only_without_token:
  "(exec env (c, s) call = (c', s') \<longrightarrow>
      (c' = c \<and> s' = s)
      \<or> (\<exists>r1 s1 evs. ensureAuthenticated env c s = (r1, c', s1)
            \<and> trace s' = trace s1 @ evs \<and> filter is_login evs = []))
   \<and> (Token c \<noteq> '''' \<longrightarrow>
        ensureAuthenticated env c s = (None, c, s)
        \<and> Token (fst (run env (c, s) calls)) = Token c
        \<and> filter is_login (trace (snd (run env (c, s) calls))) = filter is_login (trace s))
   \<and> length (filter login_succeeded (trace (snd (run env (c, s) calls))))
        \<le> length (filter login_succeeded (trace s)) + 1"
proof (intro conjI impI)
  assume "exec env (c, s) call = (c', s')"
  then show "(c' = c \<and> s' = s)
      \<or> (\<exists>r1 s1 evs. ensureAuthenticated env c s = (r1, c', s1)
            \<and> trace s' = trace s1 @ evs \<and> filter is_login evs = [])"
    by (rule exec_guard)
next
  assume "Token c \<noteq> ''''"
  then show "ensureAuthenticated env c s = (None, c, s)"
    by (rule ensureAuthenticated_with_token)
next
  assume t: "Token c \<noteq> ''''"
  from run_with_token [OF t, of env s calls]
  show "Token (fst (run env (c, s) calls)) = Token c" by simp
next
  assume t: "Token c \<noteq> ''''"
  from run_with_token [OF t, of env s calls]
  show "filter is_login (trace (snd (run env (c, s) calls))) = filter is_login (trace s)"
    by simp
next
  from run_success_count [of env c s calls]
  show "length (filter login_succeeded (trace (snd (run env (c, s) calls))))
        \<le> length (filter login_succeeded (trace s)) + 1"
    by (simp split: if_splits)
qed

text \<open>
  Three operations in a row on the simulated server: a client without a token logs in
  once, a client with a token never.
\<close>

theorem login_only_without_token_witness:
  "length (filter is_login (trace (snd (run sim_ok (c0, s0)
       [CallGetResource ''a'', CallDeleteResource ''a'', CallShare ''a'' 0 '''' '''']))))
     = 1
   \<and> length (filter login_succeeded (trace (snd (run sim_ok (c0, s0)
       [CallGetResource ''a'', CallDeleteResource ''a'', CallShare ''a'' 0 '''' '''']))))
     \<le> 1
   \<and> filter is_login (trace (snd (run sim_ok (c_tok, s0)
       [CallGetResource ''a'', CallDeleteResource ''a'', CallShare ''a'' 0 '''' ''''])))
     = []"
proof -
  have t: "Token c_tok \<noteq> ''''" "trace s0 = []"
    by (simp_all add: c_tok_def s0_def)
  have one: "length (filter is_login (trace (snd (run sim_ok (c0, s0)
       [CallGetResource ''a'', CallDeleteResource ''a'', CallShare ''a'' 0 '''' '''']))))
     = 1"
    by (simp add: run_def op_defs sim_defs Let_def)
  show ?thesis
    using login_only_without_token [of sim_ok c0 s0 "CallGetResource ''a''" c0 s0
        "[CallGetResource ''a'', CallDeleteResource ''a'', CallShare ''a'' 0 '''' '''']"]
      login_only_without_token [of sim_ok c_tok s0 "CallGetResource ''a''" c_tok s0
        "[CallGetResource ''a'', CallDeleteResource ''a'', CallShare ''a'' 0 '''' '''']"]
    by (simp add: t one)
qed

text \<open>
  A server that refuses every login with status 500: two metadata queries on one client
  send two logins.
\<close>

theorem failed_login_is_repeated_counterexample:
  "length (filter is_login (trace (snd (run (sim_env (\<lambda>rq. Inr (StatusResp 500 ''''))) (c0, s0)
       [CallGetResource ''a'', CallGetResource ''a'']))))
     = 2"
  by (simp add: run_def op_defs sim_defs Let_def)

section \<open>Empty remote paths\<close>

text \<open>
  Claim C10. Each of \<open>Upload\<close>, \<open>Share\<close>, \<open>GetResource\<close> and \<open>DeleteResource\<close>, called with
  an empty remote path, returns an error and leaves the client (its token included), the
  world and the trace as they were: no login and no request has been made.
\<close>

theorem empty_remote_path_is_rejected_first:
  "(\<exists>err. Upload env c s localPath '''' = (Some err, c, s))
   \<and> (\<exists>err. Share env c s '''' expires password unit = (Inl err, c, s))
   \<and> (\<exists>err. GetResource env c s '''' = (Inl err, c, s))
   \<and> (\<exists>err. DeleteResource env c s '''' = (Some err, c, s))"
  by (simp add: Upload_def Share_def GetResource_def DeleteResource_def)

end
